theory Spec2Isabelle
  imports Complex_Main "HOL-Library.Log_Nat" "HOL-Library.Monad_Syntax"
begin

section \<open>Python numbers\<close>

text \<open>
  The calculation block of \<^verbatim>\<open>proforma.py\<close> (lines 120 to 169) mixes Python \<^verbatim>\<open>int\<close>
  values (the integer sliders and the number input) with Python \<^verbatim>\<open>float\<close> values
  (the sliders whose bounds are written with a decimal point). A Python \<^verbatim>\<open>int\<close> is
  unbounded and is modelled as \<^typ>\<open>int\<close>. A Python \<^verbatim>\<open>float\<close> is an IEEE-754 double;
  it is modelled as the \<^typ>\<open>real\<close> number it denotes, and every float operation rounds
  its exact result to 53 significant bits, ties to even. The exponent range is not
  bounded in this rounding: infinities, NaN, overflow and underflow are outside it,
  and a run of the block in it is a run in which no intermediate value leaves the
  range of the normal doubles. Lines 140 and 141, where underflow decides whether a
  division raises, are modelled a second time with the exponent range of a double
  (\<open>round_double\<close> below). A float input may be any real number; the doubles are
  among them.

  Every operation takes the arithmetic as a parameter: \<open>Binary64 pw\<close> rounds as the
  interpreter does, \<open>Exact\<close> does not round at all and gives the formulas as
  real-number quantities. The interpreter computes \<^verbatim>\<open>x ** y\<close> on floats with the
  \<^verbatim>\<open>pow\<close> of the C library, which is not part of the repository and is not
  correctly rounded; it is the parameter \<open>pw\<close>, about which nothing is assumed.
\<close>

datatype arithmetic = Exact | Binary64 "real \<Rightarrow> real \<Rightarrow> real"

definition pow2 :: "int \<Rightarrow> real" where
  "pow2 k = (if 0 \<le> k then 2 ^ nat k else 1 / 2 ^ nat (- k))"

text \<open>The binade of a non-zero \<open>x\<close>: the exponent \<open>e\<close> with \<open>2^e \<le> |x| < 2^(e+1)\<close>.\<close>

definition binade :: "real \<Rightarrow> int" where
  "binade x = (if 1 \<le> \<bar>x\<bar> then bitlen \<lfloor>\<bar>x\<bar>\<rfloor> - 1
               else - int (ceillog2 (nat \<lceil>1 / \<bar>x\<bar>\<rceil>)))"

definition round_half_even :: "real \<Rightarrow> int" where
  "round_half_even r =
     (let f = \<lfloor>r\<rfloor>; d = r - of_int f
      in if d < 1 / 2 then f
         else if 1 / 2 < d then f + 1
         else if even f then f else f + 1)"

text \<open>Rounding to the nearest double: a multiple of \<open>2^(e-52)\<close> in the binade \<open>e\<close>.\<close>

definition round53 :: "real \<Rightarrow> real" where
  "round53 x = (if x = 0 then 0
                else let u = pow2 (binade x - 52)
                     in of_int (round_half_even (x / u)) * u)"

fun rnd :: "arithmetic \<Rightarrow> real \<Rightarrow> real" where
  "rnd Exact x = x"
| "rnd (Binary64 pw) x = round53 x"

text \<open>A float literal of the source text, and the conversion of an \<^verbatim>\<open>int\<close> operand
  that Python performs when the other operand is a \<^verbatim>\<open>float\<close>.\<close>

definition py_lit :: "arithmetic \<Rightarrow> real \<Rightarrow> real" where
  "py_lit m r = rnd m r"

definition py_float :: "arithmetic \<Rightarrow> int \<Rightarrow> real" where
  "py_float m n = rnd m (of_int n)"

definition py_add :: "arithmetic \<Rightarrow> real \<Rightarrow> real \<Rightarrow> real" where
  "py_add m a b = rnd m (a + b)"

definition py_sub :: "arithmetic \<Rightarrow> real \<Rightarrow> real \<Rightarrow> real" where
  "py_sub m a b = rnd m (a - b)"

definition py_mul :: "arithmetic \<Rightarrow> real \<Rightarrow> real \<Rightarrow> real" where
  "py_mul m a b = rnd m (a * b)"

text \<open>The quotient that \<^verbatim>\<open>a / b\<close> yields when it yields one.\<close>

definition quot :: "arithmetic \<Rightarrow> real \<Rightarrow> real \<Rightarrow> real" where
  "quot m a b = rnd m (a / b)"

text \<open>\<^verbatim>\<open>a / b\<close> raises \<^verbatim>\<open>ZeroDivisionError\<close> when \<open>b\<close> is zero. Short of overflow it
  is the only exception the calculation block can raise, so a raised exception is
  \<open>None\<close>.\<close>

definition py_div :: "arithmetic \<Rightarrow> real \<Rightarrow> real \<Rightarrow> real option" where
  "py_div m a b = (if b = 0 then None else Some (quot m a b))"

text \<open>\<^verbatim>\<open>x ** y\<close> on floats with a positive base \<open>x\<close>: the value the C library's
  \<^verbatim>\<open>pow\<close> returns, a double as it is. The only call is in \<^verbatim>\<open>calc_irr\<close>, behind the
  guards that make the base positive.\<close>

fun py_pow :: "arithmetic \<Rightarrow> real \<Rightarrow> real \<Rightarrow> real" where
  "py_pow Exact x y = x powr y"
| "py_pow (Binary64 pw) x y = pw x y"

section \<open>The global variables of the script\<close>

text \<open>The fourteen widget values, with the Python type each widget returns.\<close>

record inputs =
  buildable_sf :: int
  units :: int
  land_cost :: int
  hard_cost_per_sf :: int
  soft_cost_pct :: real
  contingency_pct :: real
  loan_to_cost :: real
  interest_rate :: real
  rent_per_sf_year :: int
  stabilized_vacancy_pct :: real
  op_ex_pct :: real
  exit_cap_rate :: real
  sale_cost_pct :: real
  hold_period_years :: int

text \<open>The module namespace: the inputs and every variable the calculation block
  assigns. \<open>irr\<close> is \<open>None\<close> where \<^verbatim>\<open>calc_irr\<close> returns Python's \<^verbatim>\<open>None\<close>.\<close>

record globals = inputs +
  hard_costs :: int
  soft_costs :: real
  contingency :: real
  total_project_cost :: real
  loan_amount :: real
  equity_required :: real
  pgi :: int
  vacancy_loss :: real
  egi :: real
  op_ex :: real
  noi :: real
  cap_rate_decimal :: real
  stabilized_value :: real
  sale_costs :: real
  net_sale_before_debt :: real
  developer_profit_unlevered :: real
  dev_margin_on_cost :: real
  equity_exit_cash :: real
  equity_profit :: real
  equity_multiple :: real
  irr :: "real option"

text \<open>The two halves of the namespace: what the widgets wrote and what the
  calculation block wrote.\<close>

definition inputs_of :: "globals \<Rightarrow> inputs" where
  "inputs_of s = inputs.truncate s"

definition derived_of :: "globals \<Rightarrow> unit globals_ext" where
  "derived_of s = inputs.more s"

section \<open>The calculation block\<close>

text \<open>\<^verbatim>\<open>calc_irr\<close>, lines 160 to 167. The outer \<open>option\<close> is the exception, the inner
  one the returned \<^verbatim>\<open>None\<close>.\<close>

definition calc_irr :: "arithmetic \<Rightarrow> real \<Rightarrow> real \<Rightarrow> int \<Rightarrow> real option option" where
  "calc_irr m equity_out equity_in years =
     (if equity_in \<le> 0 \<or> equity_out \<le> 0 \<or> years \<le> 0 then Some None
      else do {
        ratio \<leftarrow> py_div m equity_out equity_in;
        expo \<leftarrow> py_div m 1 (py_float m years);
        Some (Some (py_sub m (py_pow m ratio expo) 1))
      })"

text \<open>The assignments of lines 123 to 169, one after the other on the namespace,
  in the blocks that the comments of the source mark. First \<^verbatim>\<open># Costs\<close>, lines 123
  to 126.\<close>

definition costs :: "arithmetic \<Rightarrow> globals \<Rightarrow> globals option" where
  "costs m s0 = do {
     let s = s0\<lparr>hard_costs := buildable_sf s0 * hard_cost_per_sf s0\<rparr>;
     soft_frac \<leftarrow> py_div m (soft_cost_pct s) 100;
     let s = s\<lparr>soft_costs := py_mul m (py_float m (hard_costs s)) soft_frac\<rparr>;
     cont_frac \<leftarrow> py_div m (contingency_pct s) 100;
     let s = s\<lparr>contingency :=
                py_mul m (py_add m (py_float m (hard_costs s)) (soft_costs s)) cont_frac\<rparr>;
     Some (s\<lparr>total_project_cost :=
                py_add m (py_add m (py_float m (land_cost s + hard_costs s)) (soft_costs s))
                  (contingency s)\<rparr>)
   }"

text \<open>\<^verbatim>\<open># Financing\<close>, lines 129 and 130.\<close>

definition financing :: "arithmetic \<Rightarrow> globals \<Rightarrow> globals option" where
  "financing m s0 = do {
     ltc_frac \<leftarrow> py_div m (loan_to_cost s0) 100;
     let s = s0\<lparr>loan_amount := py_mul m (total_project_cost s0) ltc_frac\<rparr>;
     Some (s\<lparr>equity_required := py_sub m (total_project_cost s) (loan_amount s)\<rparr>)
   }"

text \<open>\<^verbatim>\<open># Income (stabilized, annual)\<close>, lines 133 to 137.\<close>

definition income :: "arithmetic \<Rightarrow> globals \<Rightarrow> globals option" where
  "income m s0 = do {
     let s = s0\<lparr>pgi := buildable_sf s0 * rent_per_sf_year s0\<rparr>;
     vac_frac \<leftarrow> py_div m (stabilized_vacancy_pct s) 100;
     let s = s\<lparr>vacancy_loss := py_mul m (py_float m (pgi s)) vac_frac\<rparr>;
     let s = s\<lparr>egi := py_sub m (py_float m (pgi s)) (vacancy_loss s)\<rparr>;
     opex_frac \<leftarrow> py_div m (op_ex_pct s) 100;
     let s = s\<lparr>op_ex := py_mul m (egi s) opex_frac\<rparr>;
     Some (s\<lparr>noi := py_sub m (egi s) (op_ex s)\<rparr>)
   }"

text \<open>\<^verbatim>\<open># Exit\<close>, lines 140 to 149.\<close>

definition exit_block :: "arithmetic \<Rightarrow> globals \<Rightarrow> globals option" where
  "exit_block m s0 = do {
     cap \<leftarrow> (if 0 < exit_cap_rate s0 then py_div m (exit_cap_rate s0) 100
             else Some (py_lit m (1 / 10000)));
     let s = s0\<lparr>cap_rate_decimal := cap\<rparr>;
     worth \<leftarrow> py_div m (noi s) (cap_rate_decimal s);
     let s = s\<lparr>stabilized_value := worth\<rparr>;
     sale_frac \<leftarrow> py_div m (sale_cost_pct s) 100;
     let s = s\<lparr>sale_costs := py_mul m (stabilized_value s) sale_frac\<rparr>;
     let s = s\<lparr>net_sale_before_debt := py_sub m (stabilized_value s) (sale_costs s)\<rparr>;
     let s = s\<lparr>developer_profit_unlevered :=
                py_sub m (net_sale_before_debt s) (total_project_cost s)\<rparr>;
     margin \<leftarrow> (if 0 < total_project_cost s
                then py_div m (developer_profit_unlevered s) (total_project_cost s)
                else Some 0);
     Some (s\<lparr>dev_margin_on_cost := margin\<rparr>)
   }"

text \<open>\<^verbatim>\<open># Simple levered payoff assumption\<close>, lines 153 to 158.\<close>

definition levered_payoff :: "arithmetic \<Rightarrow> globals \<Rightarrow> globals option" where
  "levered_payoff m s0 = do {
     let s = s0\<lparr>equity_exit_cash := py_sub m (net_sale_before_debt s0) (loan_amount s0)\<rparr>;
     let s = s\<lparr>equity_profit := py_sub m (equity_exit_cash s) (equity_required s)\<rparr>;
     multiple \<leftarrow> (if 0 < equity_required s
                  then py_div m (equity_exit_cash s) (equity_required s)
                  else Some 0);
     Some (s\<lparr>equity_multiple := multiple\<rparr>)
   }"

text \<open>The whole block, to the assignment of \<open>irr\<close> on line 169.\<close>

definition core :: "arithmetic \<Rightarrow> globals \<Rightarrow> globals option" where
  "core m s0 = do {
     s \<leftarrow> costs m s0;
     s \<leftarrow> financing m s;
     s \<leftarrow> income m s;
     s \<leftarrow> exit_block m s;
     s \<leftarrow> levered_payoff m s;
     rate \<leftarrow> calc_irr m (equity_exit_cash s) (equity_required s) (hold_period_years s);
     Some (s\<lparr>irr := rate\<rparr>)
   }"

section \<open>Lines 140 and 141 within the exponent range of a double\<close>

text \<open>Whether line 141 divides by zero depends on underflow, which \<open>round53\<close> leaves
  out. \<open>round_double\<close> rounds as \<open>round53\<close> does down to \<open>2^-1022\<close> and on the fixed
  grid of the subnormal numbers, \<open>2^-1074\<close>, below it, so that a small enough quotient
  is \<open>0.0\<close>.\<close>

definition round_double :: "real \<Rightarrow> real" where
  "round_double x = (if x = 0 then 0
                     else let u = pow2 (max (binade x) (- 1022) - 52)
                          in of_int (round_half_even (x / u)) * u)"

text \<open>What \<^verbatim>\<open>a / b\<close> does on finite doubles: it raises when \<open>b\<close> is zero, and yields
  \<^verbatim>\<open>inf\<close> or \<^verbatim>\<open>-inf\<close> without raising when the rounded quotient is beyond the largest
  double.\<close>

datatype py_quotient = ZeroDivisionError | Infinity | Double real

definition double_div :: "real \<Rightarrow> real \<Rightarrow> py_quotient" where
  "double_div a b =
     (if b = 0 then ZeroDivisionError
      else let q = round_double (a / b)
           in if 2 ^ 1024 \<le> \<bar>q\<bar> then Infinity else Double q)"

text \<open>Lines 140 and 141, from the values of \<open>exit_cap_rate\<close> and \<open>noi\<close> when line 140 is
  reached, to the value of \<open>cap_rate_decimal\<close> and the outcome of the division that
  line 141 assigns to \<open>stabilized_value\<close>.\<close>

definition lines_140_141 :: "real \<Rightarrow> real \<Rightarrow> real \<times> py_quotient" where
  "lines_140_141 rate net =
     (let cap = (if 0 < rate then round_double (rate / 100) else round_double (1 / 10000))
      in (cap, double_div net cap))"

section \<open>Concrete namespaces\<close>

text \<open>The widget defaults, before the calculation block has run.\<close>

definition start :: globals where
  "start =
     \<lparr>buildable_sf = 2000, units = 10, land_cost = 500000, hard_cost_per_sf = 350,
      soft_cost_pct = 15, contingency_pct = 15 / 2, loan_to_cost = 65, interest_rate = 7,
      rent_per_sf_year = 45, stabilized_vacancy_pct = 5, op_ex_pct = 35,
      exit_cap_rate = 5, sale_cost_pct = 1, hold_period_years = 4,
      hard_costs = 0, soft_costs = 0, contingency = 0, total_project_cost = 0,
      loan_amount = 0, equity_required = 0, pgi = 0, vacancy_loss = 0, egi = 0, op_ex = 0,
      noi = 0, cap_rate_decimal = 0, stabilized_value = 0, sale_costs = 0,
      net_sale_before_debt = 0, developer_profit_unlevered = 0, dev_margin_on_cost = 0,
      equity_exit_cash = 0, equity_profit = 0, equity_multiple = 0, irr = None\<rparr>"

text \<open>The same widget values in a namespace that an earlier run has left behind.\<close>

definition stale :: globals where
  "stale = start\<lparr>hard_costs := 1, total_project_cost := - 7, loan_amount := 3,
             equity_required := 11, noi := 13, cap_rate_decimal := 0,
             equity_exit_cash := 17, irr := Some 1\<rparr>"

text \<open>The defaults with the two display-only widgets moved.\<close>

definition redisplayed :: globals where
  "redisplayed = start\<lparr>units := 25, interest_rate := 9\<rparr>"


text \<open>Widget values within the slider ranges at which rounding shows in the capital
  stack: 2400 SF at 430 per SF, soft costs 8 percent, contingency 4.5 percent,
  loan-to-cost 29 percent.\<close>

definition rounding_case :: globals where
  "rounding_case = start\<lparr>buildable_sf := 2400, hard_cost_per_sf := 430, soft_cost_pct := 8,
                      contingency_pct := 9 / 2, loan_to_cost := 29\<rparr>"



section \<open>Rounding\<close>

lemma pow2_pos: "0 < pow2 k"
  by (simp add: pow2_def)

lemma pow2_add: "pow2 (a + b) = pow2 a * pow2 b"
proof -
  have "pow2 k = 2 powi k" for k
    by (simp add: pow2_def power_int_def inverse_eq_divide power_one_over)
  then show ?thesis by (simp add: power_int_add)
qed

lemma pow2_neg_nat: "pow2 (- int c) = 1 / 2 ^ c"
  by (auto simp: pow2_def)

text \<open>\<open>binade\<close> is the exponent it is meant to be.\<close>

lemma binade_lower:
  assumes "x \<noteq> 0"
  shows "pow2 (binade x) \<le> \<bar>x\<bar>"
proof (cases "1 \<le> \<bar>x\<bar>")
  case True
  define n where "n = \<lfloor>\<bar>x\<bar>\<rfloor>"
  have n: "0 < n" using True by (simp add: n_def)
  have b: "1 \<le> bitlen n" using n by (simp add: bitlen_alt_def)
  have "(2::int) ^ nat (bitlen n - 1) \<le> n" using bitlen_bounds [OF n] by simp
  then have "real_of_int (2 ^ nat (bitlen n - 1)) \<le> real_of_int n" by linarith
  also have "\<dots> \<le> \<bar>x\<bar>" by (simp add: n_def)
  finally show ?thesis using True b by (simp add: binade_def pow2_def n_def)
next
  case False
  define y where "y = 1 / \<bar>x\<bar>"
  define n where "n = nat \<lceil>y\<rceil>"
  have y: "1 < y" using False assms by (simp add: y_def)
  have "y \<le> real_of_int \<lceil>y\<rceil>" by linarith
  also have "\<dots> = real n" using y by (simp add: n_def)
  also have "\<dots> \<le> real (2 ^ ceillog2 n)" using le_two_power_ceillog2 [of n] by linarith
  finally have "y \<le> 2 ^ ceillog2 n" by simp
  then have "1 / 2 ^ ceillog2 n \<le> \<bar>x\<bar>"
    using assms by (simp add: y_def field_simps)
  then show ?thesis using False
    by (simp add: binade_def pow2_neg_nat n_def y_def)
qed

lemma binade_upper:
  assumes "x \<noteq> 0"
  shows "\<bar>x\<bar> < pow2 (binade x + 1)"
proof (cases "1 \<le> \<bar>x\<bar>")
  case True
  define n where "n = \<lfloor>\<bar>x\<bar>\<rfloor>"
  have n: "0 < n" using True by (simp add: n_def)
  have b: "1 \<le> bitlen n" using n by (simp add: bitlen_alt_def)
  have "n < 2 ^ nat (bitlen n)" using bitlen_bounds [OF n] by simp
  then have "n + 1 \<le> 2 ^ nat (bitlen n)" by simp
  then have "real_of_int (n + 1) \<le> real_of_int (2 ^ nat (bitlen n))" by linarith
  moreover have "\<bar>x\<bar> < real_of_int (n + 1)" unfolding n_def by linarith
  ultimately have "\<bar>x\<bar> < 2 ^ nat (bitlen n)" by simp
  then show ?thesis using True b by (simp add: binade_def pow2_def n_def)
next
  case False
  define y where "y = 1 / \<bar>x\<bar>"
  define n where "n = nat \<lceil>y\<rceil>"
  define c where "c = ceillog2 n"
  have y: "1 < y" using False assms by (simp add: y_def)
  have n: "2 \<le> n" using y unfolding n_def by linarith
  have c: "1 \<le> c" unfolding c_def using n ceillog2_ge_iff [of n 1] by simp
  have "2 ^ c < 2 * n" unfolding c_def using two_power_ceillog2_gt [of n] n by simp
  then have "2 * 2 ^ (c - 1) < 2 * n" using c by (simp flip: power_Suc)
  then have "int (2 ^ (c - 1)) < \<lceil>y\<rceil>" using y by (simp add: n_def)
  then have "real (2 ^ (c - 1)) < y" by (simp add: less_ceiling_iff)
  then have "2 ^ (c - 1) < 1 / \<bar>x\<bar>" by (simp add: y_def)
  then have "\<bar>x\<bar> < 1 / 2 ^ (c - 1)" using assms by (simp add: field_simps)
  moreover have "binade x + 1 = - int (c - 1)"
    using False c by (simp add: binade_def c_def n_def y_def)
  ultimately show ?thesis
    by (simp add: pow2_neg_nat)
qed

lemma pow2_powr: "pow2 k = 2 powr (of_int k)"
  by (simp add: pow2_def powr_real_of_int inverse_eq_divide)

lemma binade_floor_log:
  assumes "x \<noteq> 0"
  shows "binade x = \<lfloor>log 2 \<bar>x\<bar>\<rfloor>"
proof -
  have pos: "0 < \<bar>x\<bar>" using assms by simp
  have "2 powr (of_int (binade x)) \<le> \<bar>x\<bar>"
    using binade_lower [OF assms] by (simp add: pow2_powr)
  then have lo: "of_int (binade x) \<le> log 2 \<bar>x\<bar>"
    using pos by (simp add: le_log_iff)
  have "\<bar>x\<bar> < 2 powr (of_int (binade x + 1))"
    using binade_upper [OF assms] by (simp only: pow2_powr)
  then have hi: "log 2 \<bar>x\<bar> < of_int (binade x) + 1"
    using pos by (simp add: log_less_iff)
  from lo hi show ?thesis by (simp add: floor_unique)
qed

lemma round_half_even_near: "\<bar>of_int (round_half_even r) - r\<bar> \<le> 1 / 2"
  unfolding round_half_even_def Let_def by (auto; linarith)

text \<open>The rounded value is within half a unit in the last place.\<close>

lemma round53_error:
  assumes "x \<noteq> 0"
  shows "\<bar>round53 x - x\<bar> \<le> pow2 (binade x - 53)"
proof -
  define u where "u = pow2 (binade x - 52)"
  have u: "0 < u" by (simp add: u_def pow2_pos)
  have h: "pow2 (binade x - 53) = u / 2"
    using pow2_add [of "-1" "binade x - 52"] by (simp add: u_def pow2_def)
  have "\<bar>of_int (round_half_even (x / u)) - x / u\<bar> * u \<le> 1 / 2 * u"
    using round_half_even_near [of "x / u"] u by (intro mult_right_mono) simp_all
  also have "\<bar>of_int (round_half_even (x / u)) - x / u\<bar> * u
      = \<bar>(of_int (round_half_even (x / u)) - x / u) * u\<bar>"
    using u by (simp add: abs_mult)
  also have "(of_int (round_half_even (x / u)) - x / u) * u
      = of_int (round_half_even (x / u)) * u - x"
    using u by (simp add: field_simps)
  finally show ?thesis using assms h by (simp add: round53_def u_def Let_def)
qed

text \<open>Without underflow, rounding never turns a non-zero number into zero.\<close>

lemma round53_zero_iff: "round53 x = 0 \<longleftrightarrow> x = 0"
proof
  assume z: "round53 x = 0"
  show "x = 0"
  proof (rule ccontr)
    assume nz: "x \<noteq> 0"
    define u where "u = pow2 (binade x - 52)"
    have u: "0 < u" by (simp add: u_def pow2_pos)
    have "pow2 (binade x) = pow2 52 * u"
      using pow2_add [of 52 "binade x - 52"] by (simp add: u_def)
    then have "pow2 52 * u \<le> \<bar>x\<bar>" using binade_lower [OF nz] by simp
    then have "pow2 52 \<le> \<bar>x\<bar> / u" using u by (simp add: field_simps)
    moreover have "1 \<le> pow2 52" by (simp add: pow2_def)
    moreover have "\<bar>x / u\<bar> = \<bar>x\<bar> / u" using u by simp
    ultimately have big: "1 \<le> \<bar>x / u\<bar>" by linarith
    have "round_half_even (x / u) = 0" using z nz u by (simp add: round53_def u_def Let_def)
    with round_half_even_near [of "x / u"] have "\<bar>x / u\<bar> \<le> 1 / 2" by simp
    with big show False by linarith
  qed
qed (simp add: round53_def)

lemma rnd_zero_iff: "rnd m x = 0 \<longleftrightarrow> x = 0"
  by (cases m) (simp_all add: round53_zero_iff)




text \<open>The relative error of one rounding is at most \<open>2^-53\<close>.\<close>

lemma round53_relative: "\<bar>round53 x - x\<bar> \<le> \<bar>x\<bar> / 2 ^ 53"
proof (cases "x = 0")
  case True
  then show ?thesis by (simp add: round53_def)
next
  case False
  have "pow2 (binade x - 53) = pow2 (binade x) * pow2 (- 53)"
    using pow2_add [of "binade x" "- 53"] by simp
  also have "\<dots> = pow2 (binade x) / 2 ^ 53" by (simp add: pow2_def)
  also have "\<dots> \<le> \<bar>x\<bar> / 2 ^ 53"
    using binade_lower [OF False] by (simp add: divide_right_mono)
  finally show ?thesis using round53_error [OF False] by linarith
qed

lemma rnd_relative: "\<bar>rnd m x - x\<bar> \<le> \<bar>x\<bar> / 2 ^ 53"
proof (cases m)
  case Exact
  then show ?thesis by simp
next
  case (Binary64 pw)
  then show ?thesis using round53_relative [of x] by simp
qed

text \<open>Rounding with underflow: it agrees with \<open>round53\<close> from \<open>2^-1022\<close> upwards, and it
  gives zero exactly up to half the smallest subnormal number.\<close>

lemma pow2_mono: "a \<le> b \<Longrightarrow> pow2 a \<le> pow2 b"
  by (simp add: pow2_powr)

lemma pow2_less_iff: "pow2 a < pow2 b \<longleftrightarrow> a < b"
  by (simp add: pow2_powr)


lemma binade_ge: assumes "x \<noteq> 0" "pow2 k \<le> \<bar>x\<bar>" shows "k \<le> binade x"
proof -
  have "pow2 k < pow2 (binade x + 1)" using assms binade_upper [OF assms(1)] by linarith
  then show ?thesis by (simp add: pow2_less_iff)
qed


lemma round_double_normal:
  assumes "pow2 (- 1022) \<le> \<bar>x\<bar>"
  shows "round_double x = round53 x"
proof -
  have nz: "x \<noteq> 0" using assms pow2_pos [of "- 1022"] by auto
  have "- 1022 \<le> binade x" by (rule binade_ge [OF nz assms])
  then show ?thesis by (simp add: round_double_def round53_def max_def Let_def)
qed


text \<open>The equations that evaluate \<open>round53\<close> at a numeral.\<close>

lemmas round53_eval = round53_def binade_def pow2_def round_half_even_def Let_def
  compute_bitlen ceillog2_code ceillog2_aux.simps

lemmas py_eval = py_lit_def py_float_def py_add_def py_sub_def py_mul_def quot_def

lemmas round_double_eval = round_double_def binade_def pow2_def round_half_even_def Let_def
  compute_bitlen ceillog2_code ceillog2_aux.simps

lemma literal_0001: "round_double (1 / 10000) = 7378697629483821 / 73786976294838206464"
  by (simp add: round_double_eval)



section \<open>The blocks, one by one\<close>

lemma py_div_100: "py_div m a 100 = Some (quot m a 100)"
  by (simp add: py_div_def)

lemma quot_zero_iff: "quot m a b = 0 \<longleftrightarrow> a = 0 \<or> b = 0"
  by (simp add: quot_def rnd_zero_iff)

lemma py_lit_zero_iff: "py_lit m r = 0 \<longleftrightarrow> r = 0"
  by (simp add: py_lit_def rnd_zero_iff)

lemma py_float_zero_iff: "py_float m n = 0 \<longleftrightarrow> n = 0"
  by (simp add: py_float_def rnd_zero_iff)

lemma calc_irr_eq:
  "calc_irr m equity_out equity_in years =
     Some (if equity_in \<le> 0 \<or> equity_out \<le> 0 \<or> years \<le> 0 then None
           else Some (py_sub m (py_pow m (quot m equity_out equity_in)
                                   (quot m 1 (py_float m years))) 1))"
  by (auto simp: calc_irr_def py_div_def py_float_zero_iff)

lemma costs_eq:
  assumes "h = buildable_sf s * hard_cost_per_sf s"
    and "sc = py_mul m (py_float m h) (quot m (soft_cost_pct s) 100)"
    and "ct = py_mul m (py_add m (py_float m h) sc) (quot m (contingency_pct s) 100)"
    and "t = py_add m (py_add m (py_float m (land_cost s + h)) sc) ct"
  shows "costs m s = Some (s\<lparr>hard_costs := h, soft_costs := sc, contingency := ct,
                            total_project_cost := t\<rparr>)"
  using assms by (simp add: costs_def Let_def py_div_100)

lemma financing_eq:
  assumes "l = py_mul m (total_project_cost s) (quot m (loan_to_cost s) 100)"
    and "e = py_sub m (total_project_cost s) l"
  shows "financing m s = Some (s\<lparr>loan_amount := l, equity_required := e\<rparr>)"
  using assms by (simp add: financing_def Let_def py_div_100)

lemma income_eq:
  assumes "p = buildable_sf s * rent_per_sf_year s"
    and "v = py_mul m (py_float m p) (quot m (stabilized_vacancy_pct s) 100)"
    and "g = py_sub m (py_float m p) v"
    and "x = py_mul m g (quot m (op_ex_pct s) 100)"
    and "n = py_sub m g x"
  shows "income m s = Some (s\<lparr>pgi := p, vacancy_loss := v, egi := g, op_ex := x, noi := n\<rparr>)"
  using assms by (simp add: income_def Let_def py_div_100)

lemma exit_block_eq:
  assumes "c = (if 0 < exit_cap_rate s then quot m (exit_cap_rate s) 100
                else py_lit m (1 / 10000))"
    and "w = quot m (noi s) c"
    and "k = py_mul m w (quot m (sale_cost_pct s) 100)"
    and "n = py_sub m w k"
    and "d = py_sub m n (total_project_cost s)"
    and "g = (if 0 < total_project_cost s then quot m d (total_project_cost s) else 0)"
  shows "exit_block m s =
           Some (s\<lparr>cap_rate_decimal := c, stabilized_value := w, sale_costs := k,
                   net_sale_before_debt := n, developer_profit_unlevered := d,
                   dev_margin_on_cost := g\<rparr>)"
  using assms
  by (simp add: exit_block_def Let_def py_div_def quot_zero_iff py_lit_zero_iff)

lemma levered_payoff_eq:
  assumes "c = py_sub m (net_sale_before_debt s) (loan_amount s)"
    and "p = py_sub m c (equity_required s)"
    and "q = (if 0 < equity_required s then quot m c (equity_required s) else 0)"
  shows "levered_payoff m s =
           Some (s\<lparr>equity_exit_cash := c, equity_profit := p, equity_multiple := q\<rparr>)"
  using assms by (simp add: levered_payoff_def Let_def py_div_def)

lemma core_run:
  "\<exists>s'. core m s = Some s' \<and> inputs_of s' = inputs_of s
     \<and> hard_costs s' = buildable_sf s * hard_cost_per_sf s
     \<and> soft_costs s' = py_mul m (py_float m (hard_costs s')) (quot m (soft_cost_pct s) 100)
     \<and> contingency s' = py_mul m (py_add m (py_float m (hard_costs s')) (soft_costs s'))
                            (quot m (contingency_pct s) 100)
     \<and> total_project_cost s' =
          py_add m (py_add m (py_float m (land_cost s + hard_costs s')) (soft_costs s'))
            (contingency s')
     \<and> loan_amount s' = py_mul m (total_project_cost s') (quot m (loan_to_cost s) 100)
     \<and> equity_required s' = py_sub m (total_project_cost s') (loan_amount s')
     \<and> pgi s' = buildable_sf s * rent_per_sf_year s
     \<and> vacancy_loss s' = py_mul m (py_float m (pgi s')) (quot m (stabilized_vacancy_pct s) 100)
     \<and> egi s' = py_sub m (py_float m (pgi s')) (vacancy_loss s')
     \<and> op_ex s' = py_mul m (egi s') (quot m (op_ex_pct s) 100)
     \<and> noi s' = py_sub m (egi s') (op_ex s')
     \<and> cap_rate_decimal s' =
          (if 0 < exit_cap_rate s then quot m (exit_cap_rate s) 100 else py_lit m (1 / 10000))
     \<and> stabilized_value s' = quot m (noi s') (cap_rate_decimal s')
     \<and> sale_costs s' = py_mul m (stabilized_value s') (quot m (sale_cost_pct s) 100)
     \<and> net_sale_before_debt s' = py_sub m (stabilized_value s') (sale_costs s')
     \<and> developer_profit_unlevered s' = py_sub m (net_sale_before_debt s') (total_project_cost s')
     \<and> dev_margin_on_cost s' =
          (if 0 < total_project_cost s'
           then quot m (developer_profit_unlevered s') (total_project_cost s') else 0)
     \<and> equity_exit_cash s' = py_sub m (net_sale_before_debt s') (loan_amount s')
     \<and> equity_profit s' = py_sub m (equity_exit_cash s') (equity_required s')
     \<and> equity_multiple s' =
          (if 0 < equity_required s'
           then quot m (equity_exit_cash s') (equity_required s') else 0)
     \<and> irr s' =
          (if equity_required s' \<le> 0 \<or> equity_exit_cash s' \<le> 0 \<or> hold_period_years s \<le> 0
           then None
           else Some (py_sub m (py_pow m (quot m (equity_exit_cash s') (equity_required s'))
                                   (quot m 1 (py_float m (hold_period_years s)))) 1))"
proof -
  define h where "h = buildable_sf s * hard_cost_per_sf s"
  define sc where "sc = py_mul m (py_float m h) (quot m (soft_cost_pct s) 100)"
  define ct where "ct = py_mul m (py_add m (py_float m h) sc) (quot m (contingency_pct s) 100)"
  define t where "t = py_add m (py_add m (py_float m (land_cost s + h)) sc) ct"
  define s1 where "s1 = s\<lparr>hard_costs := h, soft_costs := sc, contingency := ct,
                          total_project_cost := t\<rparr>"
  define l where "l = py_mul m t (quot m (loan_to_cost s) 100)"
  define e where "e = py_sub m t l"
  define s2 where "s2 = s1\<lparr>loan_amount := l, equity_required := e\<rparr>"
  define p where "p = buildable_sf s * rent_per_sf_year s"
  define v where "v = py_mul m (py_float m p) (quot m (stabilized_vacancy_pct s) 100)"
  define g where "g = py_sub m (py_float m p) v"
  define x where "x = py_mul m g (quot m (op_ex_pct s) 100)"
  define n where "n = py_sub m g x"
  define s3 where "s3 = s2\<lparr>pgi := p, vacancy_loss := v, egi := g, op_ex := x, noi := n\<rparr>"
  define c where
    "c = (if 0 < exit_cap_rate s then quot m (exit_cap_rate s) 100 else py_lit m (1 / 10000))"
  define w where "w = quot m n c"
  define k where "k = py_mul m w (quot m (sale_cost_pct s) 100)"
  define ns where "ns = py_sub m w k"
  define d where "d = py_sub m ns t"
  define dm where "dm = (if 0 < t then quot m d t else 0)"
  define s4 where "s4 = s3\<lparr>cap_rate_decimal := c, stabilized_value := w, sale_costs := k,
           net_sale_before_debt := ns, developer_profit_unlevered := d, dev_margin_on_cost := dm\<rparr>"
  define ec where "ec = py_sub m ns l"
  define ep where "ep = py_sub m ec e"
  define q where "q = (if 0 < e then quot m ec e else 0)"
  define s5 where "s5 = s4\<lparr>equity_exit_cash := ec, equity_profit := ep, equity_multiple := q\<rparr>"
  define r where
    "r = (if e \<le> 0 \<or> ec \<le> 0 \<or> hold_period_years s \<le> 0 then None
          else Some (py_sub m (py_pow m (quot m ec e)
                                 (quot m 1 (py_float m (hold_period_years s)))) 1))"
  have 1: "costs m s = Some s1"
    unfolding s1_def by (rule costs_eq) (simp_all add: h_def sc_def ct_def t_def)
  have 2: "financing m s1 = Some s2"
    unfolding s2_def by (rule financing_eq) (simp_all add: s1_def l_def e_def)
  have 3: "income m s2 = Some s3"
    unfolding s3_def
    by (rule income_eq) (simp_all add: s2_def s1_def p_def v_def g_def x_def n_def)
  have 4: "exit_block m s3 = Some s4"
    unfolding s4_def
    by (rule exit_block_eq)
      (simp_all add: s3_def s2_def s1_def c_def w_def k_def ns_def d_def dm_def)
  have 5: "levered_payoff m s4 = Some s5"
    unfolding s5_def
    by (rule levered_payoff_eq)
      (simp_all add: s4_def s3_def s2_def s1_def ec_def ep_def q_def)
  have 6: "calc_irr m (equity_exit_cash s5) (equity_required s5) (hold_period_years s5) = Some r"
    unfolding calc_irr_eq by (simp add: s5_def s4_def s3_def s2_def s1_def r_def)
  have run: "core m s = Some (s5\<lparr>irr := r\<rparr>)"
    by (simp add: core_def 1 2 3 4 5 6)
  have sel: "s5\<lparr>irr := r\<rparr> = s\<lparr>hard_costs := h, soft_costs := sc, contingency := ct,
      total_project_cost := t, loan_amount := l, equity_required := e, pgi := p,
      vacancy_loss := v, egi := g, op_ex := x, noi := n, cap_rate_decimal := c,
      stabilized_value := w, sale_costs := k, net_sale_before_debt := ns,
      developer_profit_unlevered := d, dev_margin_on_cost := dm, equity_exit_cash := ec,
      equity_profit := ep, equity_multiple := q, irr := r\<rparr>"
    by (simp add: s5_def s4_def s3_def s2_def s1_def)
  show ?thesis
    unfolding run sel
    by (simp add: inputs_of_def inputs.truncate_def h_def [symmetric] sc_def ct_def t_def l_def e_def p_def [symmetric] v_def
        g_def x_def n_def c_def w_def k_def ns_def d_def dm_def ec_def ep_def q_def r_def)
qed


lemma core_total: "\<exists>s'. core m s = Some s'"
  using core_run [of m s] by blast

lemma core_fields:
  assumes "core m s = Some s'"
  shows "inputs_of s' = inputs_of s"
    and "hard_costs s' = buildable_sf s * hard_cost_per_sf s"
    and "soft_costs s' = py_mul m (py_float m (hard_costs s')) (quot m (soft_cost_pct s) 100)"
    and "contingency s' = py_mul m (py_add m (py_float m (hard_costs s')) (soft_costs s'))
                            (quot m (contingency_pct s) 100)"
    and "total_project_cost s' =
          py_add m (py_add m (py_float m (land_cost s + hard_costs s')) (soft_costs s'))
            (contingency s')"
    and "loan_amount s' = py_mul m (total_project_cost s') (quot m (loan_to_cost s) 100)"
    and "equity_required s' = py_sub m (total_project_cost s') (loan_amount s')"
    and "pgi s' = buildable_sf s * rent_per_sf_year s"
    and "vacancy_loss s' = py_mul m (py_float m (pgi s')) (quot m (stabilized_vacancy_pct s) 100)"
    and "egi s' = py_sub m (py_float m (pgi s')) (vacancy_loss s')"
    and "op_ex s' = py_mul m (egi s') (quot m (op_ex_pct s) 100)"
    and "noi s' = py_sub m (egi s') (op_ex s')"
    and "cap_rate_decimal s' =
          (if 0 < exit_cap_rate s then quot m (exit_cap_rate s) 100 else py_lit m (1 / 10000))"
    and "stabilized_value s' = quot m (noi s') (cap_rate_decimal s')"
    and "sale_costs s' = py_mul m (stabilized_value s') (quot m (sale_cost_pct s) 100)"
    and "net_sale_before_debt s' = py_sub m (stabilized_value s') (sale_costs s')"
    and "developer_profit_unlevered s' =
          py_sub m (net_sale_before_debt s') (total_project_cost s')"
    and "dev_margin_on_cost s' =
          (if 0 < total_project_cost s'
           then quot m (developer_profit_unlevered s') (total_project_cost s') else 0)"
    and "equity_exit_cash s' = py_sub m (net_sale_before_debt s') (loan_amount s')"
    and "equity_profit s' = py_sub m (equity_exit_cash s') (equity_required s')"
    and "equity_multiple s' =
          (if 0 < equity_required s'
           then quot m (equity_exit_cash s') (equity_required s') else 0)"
    and "irr s' =
          (if equity_required s' \<le> 0 \<or> equity_exit_cash s' \<le> 0 \<or> hold_period_years s \<le> 0
           then None
           else Some (py_sub m (py_pow m (quot m (equity_exit_cash s') (equity_required s'))
                                   (quot m 1 (py_float m (hold_period_years s)))) 1))"
  using core_run [of m s] assms by auto


text \<open>Where no value leaves the range of the normal doubles, the two embeddings of
  lines 140 and 141 agree.\<close>

lemma lines_140_141_core:
  assumes run: "core (Binary64 pw) s = Some s'"
    and rate: "exit_cap_rate s \<le> 0 \<or> pow2 (- 1022) \<le> exit_cap_rate s / 100"
    and normal: "pow2 (- 1022) \<le> \<bar>noi s' / cap_rate_decimal s'\<bar>"
    and finite: "\<bar>stabilized_value s'\<bar> < 2 ^ 1024"
  shows "lines_140_141 (exit_cap_rate s) (noi s')
           = (cap_rate_decimal s', Double (stabilized_value s'))"
proof -
  note f = core_fields(13,14) [OF run]
  have lit: "round_double (1 / 10000) = round53 (1 / 10000)"
    by (simp add: literal_0001 round53_eval)
  have cap: "(if 0 < exit_cap_rate s then round_double (exit_cap_rate s / 100)
              else round_double (1 / 10000)) = cap_rate_decimal s'"
  proof (cases "0 < exit_cap_rate s")
    case True
    with rate have "pow2 (- 1022) \<le> \<bar>exit_cap_rate s / 100\<bar>" by simp
    from round_double_normal [OF this] True show ?thesis
      by (simp add: f(1) quot_def)
  next
    case False
    then show ?thesis by (simp add: f(1) py_lit_def lit)
  qed
  have nz: "cap_rate_decimal s' \<noteq> 0"
    unfolding f(1) by (simp add: quot_zero_iff py_lit_zero_iff)
  have val: "round_double (noi s' / cap_rate_decimal s') = stabilized_value s'"
    using round_double_normal [OF normal] by (simp add: f(2) quot_def)
  show ?thesis
    unfolding lines_140_141_def Let_def cap double_div_def val
    using nz finite by simp
qed

section \<open>Two runs, evaluated\<close>

text \<open>The income chain at the default widget values. The operating expenses are
  the one place where the two arithmetics differ on it.\<close>

lemma default_income:
  assumes run: "core m s = Some s'"
    and inp: "buildable_sf s = 2000" "rent_per_sf_year s = 45" "stabilized_vacancy_pct s = 5"
      "op_ex_pct s = 35"
  shows "pgi s' = 90000" and "vacancy_loss s' = 4500" and "egi s' = 85500"
    and "op_ex s' = (case m of Exact \<Rightarrow> 29925
                     | Binary64 pw \<Rightarrow> 8225721365299199 / 274877906944)"
    and "noi s' = 55575"
proof -
  note f = core_fields [OF run]
  show p: "pgi s' = 90000" using f(8) inp by simp
  show v: "vacancy_loss s' = 4500"
    unfolding f(9) p inp by (cases m) (simp_all add: py_eval round53_eval)
  show g: "egi s' = 85500"
    unfolding f(10) p v by (cases m) (simp_all add: py_eval round53_eval)
  show x: "op_ex s' = (case m of Exact \<Rightarrow> 29925
                     | Binary64 pw \<Rightarrow> 8225721365299199 / 274877906944)"
    unfolding f(11) g inp by (cases m) (simp_all add: py_eval round53_eval)
  show "noi s' = 55575"
    unfolding f(12) g x by (cases m) (simp_all add: py_eval round53_eval)
qed

text \<open>The exit valuation at the default widget values.\<close>

lemma default_exit:
  assumes run: "core m s = Some s'"
    and inp: "buildable_sf s = 2000" "rent_per_sf_year s = 45" "stabilized_vacancy_pct s = 5"
      "op_ex_pct s = 35" "exit_cap_rate s = 5" "sale_cost_pct s = 1"
  shows "stabilized_value s' = 1111500" and "sale_costs s' = 11115"
    and "net_sale_before_debt s' = 1100385"
proof -
  note f = core_fields [OF run]
  have n: "noi s' = 55575" using default_income(5) [OF run] inp by simp
  have c: "cap_rate_decimal s' = quot m 5 100" using f(13) inp by simp
  show w: "stabilized_value s' = 1111500"
    unfolding f(14) n c by (cases m) (simp_all add: py_eval round53_eval)
  show k: "sale_costs s' = 11115"
    unfolding f(15) w inp by (cases m) (simp_all add: py_eval round53_eval)
  show "net_sale_before_debt s' = 1100385"
    unfolding f(16) w k by (cases m) (simp_all add: py_eval round53_eval)
qed

text \<open>The cost stack at the default widget values, the land cost apart.\<close>

lemma default_costs:
  assumes run: "core m s = Some s'"
    and inp: "buildable_sf s = 2000" "hard_cost_per_sf s = 350" "soft_cost_pct s = 15"
      "contingency_pct s = 15 / 2"
  shows "hard_costs s' = 700000" and "soft_costs s' = 105000" and "contingency s' = 60375"
proof -
  note f = core_fields [OF run]
  show h: "hard_costs s' = 700000" using f(2) inp by simp
  show sc: "soft_costs s' = 105000"
    unfolding f(3) h inp by (cases m) (simp_all add: py_eval round53_eval)
  show "contingency s' = 60375"
    unfolding f(4) h sc inp by (cases m) (simp_all add: py_eval round53_eval)
qed

lemma start_run:
  assumes run: "core m start = Some s'"
  shows "total_project_cost s' = 1365375" and "loan_amount s' = 3549975 / 4"
    and "equity_required s' = 1911525 / 4" and "net_sale_before_debt s' = 1100385"
    and "developer_profit_unlevered s' = - 264990" and "equity_exit_cash s' = 851565 / 4"
proof -
  note f = core_fields [OF run]
  note c = default_costs [OF run, unfolded start_def, simplified]
  note i = default_exit [OF run, unfolded start_def, simplified]
  show t: "total_project_cost s' = 1365375"
    unfolding f(5) c by (cases m) (simp_all add: start_def py_eval round53_eval)
  show l: "loan_amount s' = 3549975 / 4"
    unfolding f(6) t by (cases m) (simp_all add: start_def py_eval round53_eval)
  show "equity_required s' = 1911525 / 4"
    unfolding f(7) t l by (cases m) (simp_all add: py_eval round53_eval)
  show n: "net_sale_before_debt s' = 1100385" by (rule i(3))
  show "developer_profit_unlevered s' = - 264990"
    unfolding f(17) n t by (cases m) (simp_all add: py_eval round53_eval)
  show "equity_exit_cash s' = 851565 / 4"
    unfolding f(19) n l by (cases m) (simp_all add: py_eval round53_eval)
qed


text \<open>The capital stack at widget values where the subtraction of line 130 rounds.\<close>

lemma rounding_case_run:
  assumes run: "core (Binary64 pw) rounding_case = Some s'"
  shows "total_project_cost s' = 7149897341154099 / 4294967296"
    and "loan_amount s' = 4146940457869377 / 8589934592"
    and "equity_required s' = 2538213556109705 / 2147483648"
proof -
  note f = core_fields [OF run]
  have h: "hard_costs s' = 1032000" using f(2) by (simp add: rounding_case_def start_def)
  have sc: "soft_costs s' = 82560"
    unfolding f(3) h by (simp add: rounding_case_def start_def py_eval round53_eval)
  have ct: "contingency s' = 3446639099589427 / 68719476736"
    unfolding f(4) h sc by (simp add: rounding_case_def start_def py_eval round53_eval)
  show t: "total_project_cost s' = 7149897341154099 / 4294967296"
    unfolding f(5) h sc ct by (simp add: rounding_case_def start_def py_eval round53_eval)
  show l: "loan_amount s' = 4146940457869377 / 8589934592"
    unfolding f(6) t by (simp add: rounding_case_def start_def py_eval round53_eval)
  show "equity_required s' = 2538213556109705 / 2147483648"
    unfolding f(7) t l by (simp add: py_eval round53_eval)
qed


section \<open>What a run depends on\<close>

lemma inputs_of_sel:
  "buildable_sf (inputs_of s) = buildable_sf s" "units (inputs_of s) = units s"
  "land_cost (inputs_of s) = land_cost s" "hard_cost_per_sf (inputs_of s) = hard_cost_per_sf s"
  "soft_cost_pct (inputs_of s) = soft_cost_pct s"
  "contingency_pct (inputs_of s) = contingency_pct s"
  "loan_to_cost (inputs_of s) = loan_to_cost s" "interest_rate (inputs_of s) = interest_rate s"
  "rent_per_sf_year (inputs_of s) = rent_per_sf_year s"
  "stabilized_vacancy_pct (inputs_of s) = stabilized_vacancy_pct s"
  "op_ex_pct (inputs_of s) = op_ex_pct s" "exit_cap_rate (inputs_of s) = exit_cap_rate s"
  "sale_cost_pct (inputs_of s) = sale_cost_pct s"
  "hold_period_years (inputs_of s) = hold_period_years s"
  by (simp_all add: inputs_of_def inputs.truncate_def)

text \<open>Two namespaces with the same derived variables, one by one, have the same
  derived half; with the same inputs as well they are the same namespace.\<close>

lemma derived_of_eqI:
  assumes "hard_costs a = hard_costs b" "soft_costs a = soft_costs b"
    "contingency a = contingency b" "total_project_cost a = total_project_cost b"
    "loan_amount a = loan_amount b" "equity_required a = equity_required b"
    "pgi a = pgi b" "vacancy_loss a = vacancy_loss b" "egi a = egi b" "op_ex a = op_ex b"
    "noi a = noi b" "cap_rate_decimal a = cap_rate_decimal b"
    "stabilized_value a = stabilized_value b" "sale_costs a = sale_costs b"
    "net_sale_before_debt a = net_sale_before_debt b"
    "developer_profit_unlevered a = developer_profit_unlevered b"
    "dev_margin_on_cost a = dev_margin_on_cost b" "equity_exit_cash a = equity_exit_cash b"
    "equity_profit a = equity_profit b" "equity_multiple a = equity_multiple b"
    "irr a = irr b"
  shows "derived_of a = derived_of b"
  using assms by (cases a, cases b) (simp add: derived_of_def)

lemma derived_of_eqD:
  assumes "derived_of a = derived_of b"
  shows "hard_costs a = hard_costs b" "soft_costs a = soft_costs b"
    "contingency a = contingency b" "total_project_cost a = total_project_cost b"
    "loan_amount a = loan_amount b" "equity_required a = equity_required b"
    "pgi a = pgi b" "vacancy_loss a = vacancy_loss b" "egi a = egi b" "op_ex a = op_ex b"
    "noi a = noi b" "cap_rate_decimal a = cap_rate_decimal b"
    "stabilized_value a = stabilized_value b" "sale_costs a = sale_costs b"
    "net_sale_before_debt a = net_sale_before_debt b"
    "developer_profit_unlevered a = developer_profit_unlevered b"
    "dev_margin_on_cost a = dev_margin_on_cost b" "equity_exit_cash a = equity_exit_cash b"
    "equity_profit a = equity_profit b" "equity_multiple a = equity_multiple b"
    "irr a = irr b"
  using assms by (cases a, cases b, simp add: derived_of_def)+

lemma globals_eqI:
  assumes "inputs_of a = inputs_of b" and "derived_of a = derived_of b"
  shows "a = b"
  using assms
  by (cases a, cases b) (simp add: inputs_of_def derived_of_def inputs.truncate_def)

text \<open>The derived variables after a run are a function of twelve of the inputs: not
  of \<open>units\<close>, not of \<open>interest_rate\<close>, and not of what the namespace held before.\<close>

lemma core_depends:
  assumes a: "core m s1 = Some a" and b: "core m s2 = Some b"
    and inp: "buildable_sf s1 = buildable_sf s2" "land_cost s1 = land_cost s2"
      "hard_cost_per_sf s1 = hard_cost_per_sf s2" "soft_cost_pct s1 = soft_cost_pct s2"
      "contingency_pct s1 = contingency_pct s2" "loan_to_cost s1 = loan_to_cost s2"
      "rent_per_sf_year s1 = rent_per_sf_year s2"
      "stabilized_vacancy_pct s1 = stabilized_vacancy_pct s2" "op_ex_pct s1 = op_ex_pct s2"
      "exit_cap_rate s1 = exit_cap_rate s2" "sale_cost_pct s1 = sale_cost_pct s2"
      "hold_period_years s1 = hold_period_years s2"
  shows "derived_of a = derived_of b"
proof (rule derived_of_eqI)
  note fa = core_fields [OF a]
  note fb = core_fields [OF b]
  show 1: "hard_costs a = hard_costs b" by (simp add: fa(2) fb(2) inp)
  show 2: "soft_costs a = soft_costs b" by (simp add: fa(3) fb(3) 1 inp)
  show 3: "contingency a = contingency b" by (simp add: fa(4) fb(4) 1 2 inp)
  show 4: "total_project_cost a = total_project_cost b" by (simp add: fa(5) fb(5) 1 2 3 inp)
  show 5: "loan_amount a = loan_amount b" by (simp add: fa(6) fb(6) 4 inp)
  show 6: "equity_required a = equity_required b" by (simp add: fa(7) fb(7) 4 5)
  show 7: "pgi a = pgi b" by (simp add: fa(8) fb(8) inp)
  show 8: "vacancy_loss a = vacancy_loss b" by (simp add: fa(9) fb(9) 7 inp)
  show 9: "egi a = egi b" by (simp add: fa(10) fb(10) 7 8)
  show 10: "op_ex a = op_ex b" by (simp add: fa(11) fb(11) 9 inp)
  show 11: "noi a = noi b" by (simp add: fa(12) fb(12) 9 10)
  show 12: "cap_rate_decimal a = cap_rate_decimal b" by (simp add: fa(13) fb(13) inp)
  show 13: "stabilized_value a = stabilized_value b" by (simp add: fa(14) fb(14) 11 12)
  show 14: "sale_costs a = sale_costs b" by (simp add: fa(15) fb(15) 13 inp)
  show 15: "net_sale_before_debt a = net_sale_before_debt b" by (simp add: fa(16) fb(16) 13 14)
  show 16: "developer_profit_unlevered a = developer_profit_unlevered b"
    by (simp add: fa(17) fb(17) 15 4)
  show "dev_margin_on_cost a = dev_margin_on_cost b" by (simp add: fa(18) fb(18) 16 4)
  show 18: "equity_exit_cash a = equity_exit_cash b" by (simp add: fa(19) fb(19) 15 5)
  show "equity_profit a = equity_profit b" by (simp add: fa(20) fb(20) 18 6)
  show "equity_multiple a = equity_multiple b" by (simp add: fa(21) fb(21) 18 6)
  show "irr a = irr b" by (simp add: fa(22) fb(22) 18 6 inp)
qed

section \<open>Properties of the calculation block\<close>

text \<open>Under \<open>Exact\<close> the operations are the operations of the reals, so every
  statement below reads as a formula over real numbers at \<open>m = Exact\<close> and as a
  statement about the doubles the interpreter computes at \<open>m = Binary64 pw\<close>.\<close>

lemma exact_ops:
  "py_add Exact a b = a + b" "py_sub Exact a b = a - b" "py_mul Exact a b = a * b"
  "quot Exact a b = a / b" "py_float Exact n = of_int n" "py_lit Exact r = r"
  "py_pow Exact a b = a powr b"
  by (simp_all add: py_eval)

text \<open>C2. For every input the block runs to its end and leaves the cost stack of
  lines 123 to 126: \<open>hard_costs = buildable_sf * hard_cost_per_sf\<close>,
  \<open>soft_costs = hard_costs * (soft_cost_pct / 100)\<close>,
  \<open>contingency = (hard_costs + soft_costs) * (contingency_pct / 100)\<close> and
  \<open>total_project_cost = land_cost + hard_costs + soft_costs + contingency\<close>, each
  operation being Python's, in the order Python evaluates them.\<close>

theorem cost_stack:
  "\<exists>s'. core m s = Some s'
     \<and> hard_costs s' = buildable_sf s * hard_cost_per_sf s
     \<and> soft_costs s' = py_mul m (py_float m (hard_costs s')) (quot m (soft_cost_pct s) 100)
     \<and> contingency s' = py_mul m (py_add m (py_float m (hard_costs s')) (soft_costs s'))
                            (quot m (contingency_pct s) 100)
     \<and> total_project_cost s' =
          py_add m (py_add m (py_float m (land_cost s + hard_costs s')) (soft_costs s'))
            (contingency s')"
proof -
  obtain s' where run: "core m s = Some s'" using core_total by blast
  from core_fields(2-5) [OF run] run show ?thesis by blast
qed

theorem cost_stack_witness:
  "\<exists>s'. core Exact start = Some s' \<and> hard_costs s' = 700000 \<and> soft_costs s' = 105000
     \<and> contingency s' = 60375 \<and> total_project_cost s' = 1365375"
proof -
  from cost_stack [of Exact start] obtain s' where run: "core Exact start = Some s'"
    and h: "hard_costs s' = buildable_sf start * hard_cost_per_sf start"
    and sc: "soft_costs s' =
      py_mul Exact (py_float Exact (hard_costs s')) (quot Exact (soft_cost_pct start) 100)"
    and ct: "contingency s' =
      py_mul Exact (py_add Exact (py_float Exact (hard_costs s')) (soft_costs s'))
        (quot Exact (contingency_pct start) 100)"
    and t: "total_project_cost s' =
      py_add Exact (py_add Exact (py_float Exact (land_cost start + hard_costs s'))
        (soft_costs s')) (contingency s')"
    by blast
  have h': "hard_costs s' = 700000" using h by (simp add: start_def)
  have sc': "soft_costs s' = 105000" unfolding sc h' by (simp add: exact_ops start_def)
  have ct': "contingency s' = 60375" unfolding ct sc' h' by (simp add: exact_ops start_def)
  have "total_project_cost s' = 1365375"
    unfolding t ct' sc' h' by (simp add: exact_ops start_def)
  with run h' sc' ct' show ?thesis by blast
qed

text \<open>C6. For every input the block leaves the stabilized income chain of lines 133
  to 137: \<open>pgi = buildable_sf * rent_per_sf_year\<close>,
  \<open>vacancy_loss = pgi * (stabilized_vacancy_pct / 100)\<close>, \<open>egi = pgi - vacancy_loss\<close>,
  \<open>op_ex = egi * (op_ex_pct / 100)\<close> and \<open>noi = egi - op_ex\<close>.\<close>

theorem income_chain:
  "\<exists>s'. core m s = Some s'
     \<and> pgi s' = buildable_sf s * rent_per_sf_year s
     \<and> vacancy_loss s' = py_mul m (py_float m (pgi s')) (quot m (stabilized_vacancy_pct s) 100)
     \<and> egi s' = py_sub m (py_float m (pgi s')) (vacancy_loss s')
     \<and> op_ex s' = py_mul m (egi s') (quot m (op_ex_pct s) 100)
     \<and> noi s' = py_sub m (egi s') (op_ex s')"
proof -
  obtain s' where run: "core m s = Some s'" using core_total by blast
  from core_fields(8-12) [OF run] run show ?thesis by blast
qed

theorem income_chain_witness:
  "\<exists>s'. core Exact start = Some s' \<and> pgi s' = 90000 \<and> vacancy_loss s' = 4500
     \<and> egi s' = 85500 \<and> op_ex s' = 29925 \<and> noi s' = 55575"
proof -
  from income_chain [of Exact start] obtain s' where run: "core Exact start = Some s'"
    and p: "pgi s' = buildable_sf start * rent_per_sf_year start"
    and v: "vacancy_loss s' =
      py_mul Exact (py_float Exact (pgi s')) (quot Exact (stabilized_vacancy_pct start) 100)"
    and g: "egi s' = py_sub Exact (py_float Exact (pgi s')) (vacancy_loss s')"
    and x: "op_ex s' = py_mul Exact (egi s') (quot Exact (op_ex_pct start) 100)"
    and n: "noi s' = py_sub Exact (egi s') (op_ex s')"
    by blast
  have p': "pgi s' = 90000" using p by (simp add: start_def)
  have v': "vacancy_loss s' = 4500" unfolding v p' by (simp add: exact_ops start_def)
  have g': "egi s' = 85500" unfolding g v' p' by (simp add: exact_ops)
  have x': "op_ex s' = 29925" unfolding x g' by (simp add: exact_ops start_def)
  have "noi s' = 55575" unfolding n x' g' by (simp add: exact_ops)
  with run p' v' g' x' show ?thesis by blast
qed








text \<open>C5, as the code has it. For every input the block leaves
  \<open>loan_amount = total_project_cost * (loan_to_cost / 100)\<close> and
  \<open>equity_required = total_project_cost - loan_amount\<close>. As real-number quantities
  \<open>equity_required + loan_amount = total_project_cost\<close>. In the doubles of the
  interpreter the subtraction rounds once: the exact real sum of the two stored doubles
  is within \<open>|total_project_cost - loan_amount| / 2^53\<close> of \<open>total_project_cost\<close>. The
  sum that Python computes, \<open>equity_required + loan_amount\<close>, rounds once more and is
  within \<open>(|total_project_cost - loan_amount| + |e|) / 2^53\<close> of \<open>total_project_cost\<close>,
  where \<open>e\<close> is the exact real sum of the two stored doubles.\<close>

theorem capital_stack:
  "\<exists>s'. core m s = Some s'
     \<and> loan_amount s' = py_mul m (total_project_cost s') (quot m (loan_to_cost s) 100)
     \<and> equity_required s' = py_sub m (total_project_cost s') (loan_amount s')
     \<and> (m = Exact \<longrightarrow> equity_required s' + loan_amount s' = total_project_cost s')
     \<and> \<bar>equity_required s' + loan_amount s' - total_project_cost s'\<bar>
          \<le> \<bar>total_project_cost s' - loan_amount s'\<bar> / 2 ^ 53
     \<and> \<bar>py_add m (equity_required s') (loan_amount s') - total_project_cost s'\<bar>
          \<le> (\<bar>total_project_cost s' - loan_amount s'\<bar>
              + \<bar>equity_required s' + loan_amount s'\<bar>) / 2 ^ 53"
proof -
  obtain s' where run: "core m s = Some s'" using core_total by blast
  note f = core_fields(6,7) [OF run]
  define D where "D = total_project_cost s' - loan_amount s'"
  define E where "E = equity_required s' + loan_amount s'"
  have ex: "m = Exact \<longrightarrow> equity_required s' + loan_amount s' = total_project_cost s'"
    unfolding f(2) by (simp add: py_sub_def)
  have d: "E - total_project_cost s' = rnd m D - D"
    unfolding E_def D_def f(2) by (simp add: py_sub_def)
  have one: "\<bar>E - total_project_cost s'\<bar> \<le> \<bar>D\<bar> / 2 ^ 53"
    unfolding d by (rule rnd_relative)
  have two: "\<bar>rnd m E - E\<bar> \<le> \<bar>E\<bar> / 2 ^ 53" by (rule rnd_relative)
  have tri: "\<bar>c - t\<bar> \<le> a + b" if "\<bar>e - t\<bar> \<le> a" "\<bar>c - e\<bar> \<le> b"
    for a b c e t :: real
    using that by linarith
  have "\<bar>rnd m E - total_project_cost s'\<bar> \<le> \<bar>D\<bar> / 2 ^ 53 + \<bar>E\<bar> / 2 ^ 53"
    by (rule tri [OF one two])
  then have "\<bar>py_add m (equity_required s') (loan_amount s') - total_project_cost s'\<bar>
      \<le> (\<bar>D\<bar> + \<bar>E\<bar>) / 2 ^ 53"
    by (simp only: add_divide_distrib py_add_def E_def)
  with run f ex one show ?thesis unfolding D_def E_def by blast
qed

theorem capital_stack_witness:
  "\<exists>s'. core Exact start = Some s' \<and> loan_amount s' = 3549975 / 4
     \<and> equity_required s' = 1911525 / 4
     \<and> equity_required s' + loan_amount s' = total_project_cost s'"
proof -
  from capital_stack [of Exact start] obtain s' where a:
    "core Exact start = Some s'
     \<and> loan_amount s' = py_mul Exact (total_project_cost s') (quot Exact (loan_to_cost start) 100)
     \<and> equity_required s' = py_sub Exact (total_project_cost s') (loan_amount s')
     \<and> (Exact = Exact \<longrightarrow> equity_required s' + loan_amount s' = total_project_cost s')
     \<and> \<bar>equity_required s' + loan_amount s' - total_project_cost s'\<bar>
          \<le> \<bar>total_project_cost s' - loan_amount s'\<bar> / 2 ^ 53
     \<and> \<bar>py_add Exact (equity_required s') (loan_amount s') - total_project_cost s'\<bar>
          \<le> (\<bar>total_project_cost s' - loan_amount s'\<bar>
              + \<bar>equity_required s' + loan_amount s'\<bar>) / 2 ^ 53" ..
  note r = start_run [OF a [THEN conjunct1]]
  from a have "equity_required s' + loan_amount s' = total_project_cost s'" by blast
  with a r show ?thesis by blast
qed

text \<open>The specification has the Python comparison
  \<open>equity_required + loan_amount == total_project_cost\<close> true for every input. At widget
  values within the slider ranges (2400 SF, 430 per SF, soft costs 8, contingency 4.5,
  loan-to-cost 29) the sum that Python computes is one unit in the last place below
  the total.\<close>

theorem capital_stack_counterexample:
  "\<forall>pw. core (Binary64 pw) rounding_case \<noteq> None
   \<and> total_project_cost (the (core (Binary64 pw) rounding_case))
       = 7149897341154099 / 4294967296
   \<and> loan_amount (the (core (Binary64 pw) rounding_case)) = 4146940457869377 / 8589934592
   \<and> equity_required (the (core (Binary64 pw) rounding_case))
       = 2538213556109705 / 2147483648
   \<and> py_add (Binary64 pw) (equity_required (the (core (Binary64 pw) rounding_case)))
         (loan_amount (the (core (Binary64 pw) rounding_case)))
       = 3574948670577049 / 2147483648
   \<and> py_add (Binary64 pw) (equity_required (the (core (Binary64 pw) rounding_case)))
         (loan_amount (the (core (Binary64 pw) rounding_case)))
       \<noteq> total_project_cost (the (core (Binary64 pw) rounding_case))"
proof (rule allI)
  fix pw
  obtain b where run: "core (Binary64 pw) rounding_case = Some b" using core_total by blast
  note r = rounding_case_run [OF run]
  have "py_add (Binary64 pw) (equity_required b) (loan_amount b)
      = 3574948670577049 / 2147483648"
    unfolding r by (simp add: py_eval round53_eval)
  then show "core (Binary64 pw) rounding_case \<noteq> None
   \<and> total_project_cost (the (core (Binary64 pw) rounding_case))
       = 7149897341154099 / 4294967296
   \<and> loan_amount (the (core (Binary64 pw) rounding_case)) = 4146940457869377 / 8589934592
   \<and> equity_required (the (core (Binary64 pw) rounding_case))
       = 2538213556109705 / 2147483648
   \<and> py_add (Binary64 pw) (equity_required (the (core (Binary64 pw) rounding_case)))
         (loan_amount (the (core (Binary64 pw) rounding_case)))
       = 3574948670577049 / 2147483648
   \<and> py_add (Binary64 pw) (equity_required (the (core (Binary64 pw) rounding_case)))
         (loan_amount (the (core (Binary64 pw) rounding_case)))
       \<noteq> total_project_cost (the (core (Binary64 pw) rounding_case))"
    by (simp add: run r)
qed

text \<open>C7. With \<open>buildable_sf = 2000\<close>, \<open>hard_cost_per_sf = 350\<close>, \<open>soft_cost_pct = 15\<close>,
  \<open>contingency_pct = 7.5\<close> and \<open>land_cost = 500000\<close> the block leaves
  \<open>hard_costs = 700000\<close>, \<open>soft_costs = 105000\<close>, \<open>contingency = 60375\<close> and
  \<open>total_project_cost = 1365375\<close>; with \<open>loan_to_cost = 65\<close> in addition it leaves
  \<open>loan_amount = 887493.75\<close> and \<open>equity_required = 477881.25\<close>. The values are exact
  in the doubles of the interpreter as well as in the reals.\<close>

theorem scenario_A_B:
  assumes "buildable_sf s = 2000" and "hard_cost_per_sf s = 350" and "soft_cost_pct s = 15"
    and "contingency_pct s = 15 / 2" and "land_cost s = 500000"
  shows "\<exists>s'. core m s = Some s' \<and> hard_costs s' = 700000 \<and> soft_costs s' = 105000
     \<and> contingency s' = 60375 \<and> total_project_cost s' = 1365375
     \<and> (loan_to_cost s = 65 \<longrightarrow>
          loan_amount s' = 88749375 / 100 \<and> equity_required s' = 47788125 / 100)"
proof -
  obtain s' where run: "core m s = Some s'" using core_total by blast
  note f = core_fields [OF run]
  note c = default_costs [OF run assms(1-4)]
  have t: "total_project_cost s' = 1365375"
    unfolding f(5) c assms by (cases m) (simp_all add: py_eval round53_eval)
  have "loan_amount s' = 88749375 / 100 \<and> equity_required s' = 47788125 / 100"
    if ltc: "loan_to_cost s = 65"
  proof -
    have l: "loan_amount s' = 88749375 / 100"
      unfolding f(6) t ltc by (cases m) (simp_all add: py_eval round53_eval)
    have "equity_required s' = 47788125 / 100"
      unfolding f(7) t l by (cases m) (simp_all add: py_eval round53_eval)
    with l show ?thesis by simp
  qed
  with run c t show ?thesis by blast
qed

theorem scenario_A_B_witness:
  "\<forall>pw. \<exists>s'. core (Binary64 pw) start = Some s' \<and> hard_costs s' = 700000
     \<and> soft_costs s' = 105000 \<and> contingency s' = 60375 \<and> total_project_cost s' = 1365375
     \<and> loan_amount s' = 88749375 / 100 \<and> equity_required s' = 47788125 / 100"
proof (rule allI)
  fix pw
  have "buildable_sf start = 2000" "hard_cost_per_sf start = 350" "soft_cost_pct start = 15"
    "contingency_pct start = 15 / 2" "land_cost start = 500000" "loan_to_cost start = 65"
    by (simp_all add: start_def)
  with scenario_A_B [of start "Binary64 pw"]
  show "\<exists>s'. core (Binary64 pw) start = Some s' \<and> hard_costs s' = 700000
     \<and> soft_costs s' = 105000 \<and> contingency s' = 60375 \<and> total_project_cost s' = 1365375
     \<and> loan_amount s' = 88749375 / 100 \<and> equity_required s' = 47788125 / 100"
    by blast
qed




text \<open>C8. Two namespaces whose inputs differ at most in \<open>units\<close> and \<open>interest_rate\<close>
  leave, after the block, the same value in every derived variable, from \<open>hard_costs\<close>
  to \<open>irr\<close> (\<open>derived_of_eqD\<close> lists them).\<close>

theorem display_only_inputs:
  assumes "inputs_of s2 = (inputs_of s1)\<lparr>units := u, interest_rate := r\<rparr>"
  shows "\<exists>a b. core m s1 = Some a \<and> core m s2 = Some b \<and> derived_of a = derived_of b"
proof -
  obtain a where a: "core m s1 = Some a" using core_total by blast
  obtain b where b: "core m s2 = Some b" using core_total by blast
  have sel: "f (inputs_of s2) = f ((inputs_of s1)\<lparr>units := u, interest_rate := r\<rparr>)"
    for f :: "inputs \<Rightarrow> 'a"
    using assms by simp
  have "derived_of a = derived_of b"
  proof (rule core_depends [OF a b])
    show "buildable_sf s1 = buildable_sf s2"
      using sel [of buildable_sf] by (simp add: inputs_of_sel)
    show "land_cost s1 = land_cost s2"
      using sel [of land_cost] by (simp add: inputs_of_sel)
    show "hard_cost_per_sf s1 = hard_cost_per_sf s2"
      using sel [of hard_cost_per_sf] by (simp add: inputs_of_sel)
    show "soft_cost_pct s1 = soft_cost_pct s2"
      using sel [of soft_cost_pct] by (simp add: inputs_of_sel)
    show "contingency_pct s1 = contingency_pct s2"
      using sel [of contingency_pct] by (simp add: inputs_of_sel)
    show "loan_to_cost s1 = loan_to_cost s2"
      using sel [of loan_to_cost] by (simp add: inputs_of_sel)
    show "rent_per_sf_year s1 = rent_per_sf_year s2"
      using sel [of rent_per_sf_year] by (simp add: inputs_of_sel)
    show "stabilized_vacancy_pct s1 = stabilized_vacancy_pct s2"
      using sel [of stabilized_vacancy_pct] by (simp add: inputs_of_sel)
    show "op_ex_pct s1 = op_ex_pct s2"
      using sel [of op_ex_pct] by (simp add: inputs_of_sel)
    show "exit_cap_rate s1 = exit_cap_rate s2"
      using sel [of exit_cap_rate] by (simp add: inputs_of_sel)
    show "sale_cost_pct s1 = sale_cost_pct s2"
      using sel [of sale_cost_pct] by (simp add: inputs_of_sel)
    show "hold_period_years s1 = hold_period_years s2"
      using sel [of hold_period_years] by (simp add: inputs_of_sel)
  qed
  with a b show ?thesis by blast
qed

theorem display_only_inputs_witness:
  "units redisplayed \<noteq> units start \<and> interest_rate redisplayed \<noteq> interest_rate start
   \<and> (\<forall>pw. \<exists>a b. core (Binary64 pw) start = Some a
          \<and> core (Binary64 pw) redisplayed = Some b \<and> derived_of a = derived_of b)"
proof -
  have "inputs_of redisplayed = (inputs_of start)\<lparr>units := 25, interest_rate := 9\<rparr>"
    by (simp add: redisplayed_def start_def inputs_of_def inputs.truncate_def)
  from display_only_inputs [OF this] show ?thesis
    by (simp add: redisplayed_def start_def)
qed

text \<open>C9. Two runs of the block on namespaces with the same inputs end in the same
  namespace, whatever an earlier run has left in the derived variables; the run
  leaves the inputs as they were; and a second run on the result changes nothing.\<close>

theorem deterministic_idempotent:
  assumes "inputs_of s1 = inputs_of s2"
  shows "\<exists>r. core m s1 = Some r \<and> core m s2 = Some r \<and> inputs_of r = inputs_of s1
           \<and> core m r = Some r"
proof -
  obtain a where a: "core m s1 = Some a" using core_total by blast
  obtain b where b: "core m s2 = Some b" using core_total by blast
  obtain c where c: "core m a = Some c" using core_total by blast
  have same: "f (inputs_of x) = f (inputs_of y)" if "inputs_of x = inputs_of y"
    for f :: "inputs \<Rightarrow> 'a" and x y
    using that by simp
  have dep: "derived_of p = derived_of q"
    if "core m x = Some p" "core m y = Some q" "inputs_of x = inputs_of y" for x y p q
    using that(1,2)
  proof (rule core_depends)
    show "buildable_sf x = buildable_sf y"
      using same [OF that(3), of buildable_sf] by (simp add: inputs_of_sel)
    show "land_cost x = land_cost y"
      using same [OF that(3), of land_cost] by (simp add: inputs_of_sel)
    show "hard_cost_per_sf x = hard_cost_per_sf y"
      using same [OF that(3), of hard_cost_per_sf] by (simp add: inputs_of_sel)
    show "soft_cost_pct x = soft_cost_pct y"
      using same [OF that(3), of soft_cost_pct] by (simp add: inputs_of_sel)
    show "contingency_pct x = contingency_pct y"
      using same [OF that(3), of contingency_pct] by (simp add: inputs_of_sel)
    show "loan_to_cost x = loan_to_cost y"
      using same [OF that(3), of loan_to_cost] by (simp add: inputs_of_sel)
    show "rent_per_sf_year x = rent_per_sf_year y"
      using same [OF that(3), of rent_per_sf_year] by (simp add: inputs_of_sel)
    show "stabilized_vacancy_pct x = stabilized_vacancy_pct y"
      using same [OF that(3), of stabilized_vacancy_pct] by (simp add: inputs_of_sel)
    show "op_ex_pct x = op_ex_pct y"
      using same [OF that(3), of op_ex_pct] by (simp add: inputs_of_sel)
    show "exit_cap_rate x = exit_cap_rate y"
      using same [OF that(3), of exit_cap_rate] by (simp add: inputs_of_sel)
    show "sale_cost_pct x = sale_cost_pct y"
      using same [OF that(3), of sale_cost_pct] by (simp add: inputs_of_sel)
    show "hold_period_years x = hold_period_years y"
      using same [OF that(3), of hold_period_years] by (simp add: inputs_of_sel)
  qed
  have ia: "inputs_of a = inputs_of s1" by (rule core_fields(1) [OF a])
  have ib: "inputs_of b = inputs_of s2" by (rule core_fields(1) [OF b])
  have ic: "inputs_of c = inputs_of a" by (rule core_fields(1) [OF c])
  have "a = b"
    by (rule globals_eqI) (simp add: ia ib assms, rule dep [OF a b assms])
  moreover have "c = a"
    by (rule globals_eqI) (rule ic, rule dep [OF c a ia])
  ultimately show ?thesis using a b c ia by blast
qed

theorem deterministic_idempotent_witness:
  "stale \<noteq> start
   \<and> (\<forall>pw. \<exists>r. core (Binary64 pw) stale = Some r \<and> core (Binary64 pw) start = Some r
          \<and> inputs_of r = inputs_of stale \<and> core (Binary64 pw) r = Some r)"
proof -
  have i: "inputs_of stale = inputs_of start"
    by (simp add: stale_def start_def inputs_of_def inputs.truncate_def)
  have "hard_costs stale \<noteq> hard_costs start" by (simp add: stale_def start_def)
  then have "stale \<noteq> start" by auto
  with deterministic_idempotent [OF i] show ?thesis by blast
qed

end
